theory Spec2Isabelle
  imports Main
begin

section \<open>Data model (main.go, lines 21-43)\<close>

text \<open>
  The proxy of \<^verbatim>\<open>main.go\<close> is embedded function by function. The standard library and
  the WebSocket library are not part of the repository: what they answer at each call
  (the HTTP exchange with the backend, the JSON decoder, the upgrade handshake, the dial,
  the reads and writes of a connection) is an input of the model, collected in the
  records \<open>env\<close> and \<open>ws_Conn\<close> below, and every call the code makes to the outside is
  written to a trace of events. A Go \<^verbatim>\<open>error\<close> is represented by its message, a
  \<open>string\<close>, except for the errors of a WebSocket connection, which keep their kind;
  a fallible call returns a sum with \<open>Inl\<close> for the error, or an option when it returns
  nothing else.
\<close>

text \<open>The fields of Go's \<^verbatim>\<open>url.URL\<close>. The user information is kept as its text.\<close>

record URL =
  Scheme :: string
  Opaque :: string
  User :: "string option"
  Host :: string
  Path :: string
  RawPath :: string
  OmitHost :: bool
  ForceQuery :: bool
  RawQuery :: string
  Fragment :: string
  RawFragment :: string

text \<open>
  \<^verbatim>\<open>versionInfo\<close> (lines 27-31). The struct tags bind the fields to the JSON keys
  \<^verbatim>\<open>Browser\<close>, \<^verbatim>\<open>Protocol-Version\<close> and \<^verbatim>\<open>webSocketDebuggerUrl\<close>.
\<close>

record versionInfo =
  Browser :: string
  ProtocolVersion :: string
  WebSocketDebuggerURL :: string

text \<open>
  \<^verbatim>\<open>proxyServer\<close> (lines 33-43). The upgrader, the dialer and the HTTP client are fixed at
  construction and appear through \<open>env\<close>; the lock \<^verbatim>\<open>mu\<close> guards single reads and
  writes of \<open>debuggerURL\<close>, which are atomic steps of the model.
\<close>

record proxyServer =
  chromiumURL :: URL
  listenAddr :: string
  debuggerURL :: string

record http_Response =
  StatusCode :: nat
  Status :: string
  Body :: string

text \<open>An outgoing HTTP request: the method and the text of the target.\<close>

record http_Request =
  reqMethod :: string
  reqURL :: string

type_synonym http_Header = "(string \<times> string) list"

text \<open>An incoming request, as far as the handlers look at it.\<close>

record Request =
  Method :: string
  URLPath :: string
  Header :: http_Header

text \<open>
  A WebSocket message is its type and its payload. An error of a connection is a close
  error of the WebSocket library (code and text) or any other error.
\<close>

type_synonym message = "int \<times> string"

datatype ws_error = CloseError nat string | NetError string

text \<open>
  A WebSocket connection, seen from the proxy: the subprotocol negotiated in its
  handshake (\<^verbatim>\<open>Subprotocol()\<close>), what the successive calls of \<^verbatim>\<open>ReadMessage\<close>
  return, and the error of the \<open>k\<close>-th call of \<^verbatim>\<open>WriteMessage\<close>, if it fails. When
  \<open>reads\<close> is used up, \<^verbatim>\<open>ReadMessage\<close> blocks.
\<close>

record ws_Conn =
  Subprotocol :: string
  reads :: "(ws_error + message) list"
  writeErr :: "nat \<Rightarrow> ws_error option"

datatype peer = Client | Backend

datatype log_arg = S string | W ws_error

text \<open>What the code does to the outside, in the order it does it.\<close>

datatype event =
    ClientDo http_Request
  | DialContext string http_Header
  | LogPrintf string log_arg
  | WriteControl peer nat string
  | ConnClose peer

text \<open>
  What \<^verbatim>\<open>http.ServeMux\<close> decides for a request, given the two patterns that
  \<^verbatim>\<open>start\<close> registers (lines 252-253): it answers itself with a redirect to a
  location, or it hands the request to the handler of \<^verbatim>\<open>/healthz\<close> or to the handler
  of \<^verbatim>\<open>/\<close>.
\<close>

datatype mux_verdict = RedirectTo string | HealthzPattern | RootPattern

text \<open>
  The answers of the outside during one operation: \<open>client_Do\<close> is
  \<^verbatim>\<open>p.client.Do\<close>, \<open>json_Decode\<close> is \<^verbatim>\<open>json.NewDecoder(body).Decode(&info)\<close>,
  \<open>dialer_DialContext\<close> is \<^verbatim>\<open>p.dialer.DialContext\<close>, \<open>IsWebSocketUpgrade\<close> is
  \<^verbatim>\<open>websocket.IsWebSocketUpgrade\<close>, \<open>upgrader_Upgrade\<close> is \<^verbatim>\<open>p.upgrader.Upgrade\<close>
  and \<open>json_Encode\<close> is the error, if any, of \<^verbatim>\<open>json.NewEncoder(w).Encode\<close>.
  \<open>backendPumpFirst\<close> tells which of the two pumps of a session reports first when both
  report. Of the package \<^verbatim>\<open>net/url\<close>, \<open>url_Parse\<close> is \<^verbatim>\<open>url.Parse\<close>,
  \<open>url_escapeHost\<close> is the escaping of a host, and \<open>url_EscapedPath\<close> and
  \<open>url_EscapedFragment\<close> are the methods \<^verbatim>\<open>EscapedPath\<close> and
  \<^verbatim>\<open>EscapedFragment\<close> of a URL. \<open>ServeMux_Handler\<close> is the decision of the
  \<^verbatim>\<open>http.ServeMux\<close> of \<^verbatim>\<open>start\<close>.
\<close>

record env =
  client_Do :: "http_Request \<Rightarrow> string + http_Response"
  json_Decode :: "string \<Rightarrow> string + versionInfo"
  dialer_DialContext :: "string \<Rightarrow> http_Header \<Rightarrow> string + ws_Conn"
  IsWebSocketUpgrade :: "Request \<Rightarrow> bool"
  upgrader_Upgrade :: "Request \<Rightarrow> string + ws_Conn"
  json_Encode :: "(string \<rightharpoonup> string) \<Rightarrow> string option"
  backendPumpFirst :: bool
  url_Parse :: "string \<Rightarrow> string + URL"
  url_escapeHost :: "string \<Rightarrow> string"
  url_EscapedPath :: "URL \<Rightarrow> string"
  url_EscapedFragment :: "URL \<Rightarrow> string"
  ServeMux_Handler :: "Request \<Rightarrow> mux_verdict"

section \<open>Construction (lines 21-25 and 45-79)\<close>

definition defaultDebugURL :: string where
  "defaultDebugURL = ''http://127.0.0.1:9222''"

definition defaultListen :: string where
  "defaultListen = '':9223''"

text \<open>
  \<^verbatim>\<open>newProxyServer\<close>: the server with an empty cache, or the error of the parse or of
  the check of the scheme.
\<close>

definition newProxyServer :: "env \<Rightarrow> string \<Rightarrow> string \<Rightarrow> string + proxyServer" where
  "newProxyServer e chromiumEndpoint listen =
     (let chromiumEndpoint' = (if chromiumEndpoint = '''' then defaultDebugURL else chromiumEndpoint)
      in case url_Parse e chromiumEndpoint' of
           Inl err \<Rightarrow> Inl err
         | Inr parsed \<Rightarrow>
             if Scheme parsed = ''''
             then Inl ''chromium debugger URL must include scheme (e.g. http://)''
             else Inr \<lparr>chromiumURL = parsed,
                       listenAddr = (if listen = '''' then defaultListen else listen),
                       debuggerURL = ''''\<rparr>)"

text \<open>
  The upgrader that \<^verbatim>\<open>newProxyServer\<close> builds (lines 66-68) sets \<^verbatim>\<open>CheckOrigin\<close>
  only: its list of subprotocols is nil.
\<close>

record Upgrader =
  Subprotocols :: "string list option"

definition proxyUpgrader :: Upgrader where
  "proxyUpgrader = \<lparr>Subprotocols = None\<rparr>"

section \<open>Discovery and cache (lines 81-142)\<close>

text \<open>
  \<^verbatim>\<open>String()\<close> of a URL, after the standard library: the scheme and a colon; then the
  opaque part, or else the authority (two slashes, the user information and the host,
  when there is any of them, a scheme or a path) and the escaped path, with a slash
  before a path that does not begin with one and follows a host, and with \<^verbatim>\<open>./\<close>
  before a path that would read as a scheme; then the query after a question mark, and the
  fragment after a hash, when there are any.
\<close>

definition URL_String :: "env \<Rightarrow> URL \<Rightarrow> string" where
  "URL_String e u =
     (let scheme = (if Scheme u \<noteq> '''' then Scheme u @ '':'' else '''');
          body =
            (if Opaque u \<noteq> '''' then scheme @ Opaque u
             else
               (let authority =
                      (if Scheme u \<noteq> '''' \<or> Host u \<noteq> '''' \<or> User u \<noteq> None
                       then
                         (if OmitHost u \<and> Host u = '''' \<and> User u = None then ''''
                          else
                            (if Host u \<noteq> '''' \<or> Path u \<noteq> '''' \<or> User u \<noteq> None
                             then ''//'' else '''') @
                            (case User u of Some ui \<Rightarrow> ui @ ''@'' | None \<Rightarrow> '''') @
                            (if Host u \<noteq> '''' then url_escapeHost e (Host u) else ''''))
                       else '''');
                    path = url_EscapedPath e u;
                    buf = scheme @ authority @
                          (if path \<noteq> '''' \<and> hd path \<noteq> CHR ''/'' \<and> Host u \<noteq> ''''
                           then ''/'' else '''');
                    dot = (if buf = '''' \<and> CHR '':'' \<in> set (takeWhile (\<lambda>c. c \<noteq> CHR ''/'') path)
                           then ''./'' else '''')
                in buf @ dot @ path));
          query = (if ForceQuery u \<or> RawQuery u \<noteq> '''' then ''?'' @ RawQuery u else '''');
          fragment = (if Fragment u \<noteq> '''' then ''#'' @ url_EscapedFragment e u else '''')
      in body @ query @ fragment)"

definition strings_HasSuffix :: "string \<Rightarrow> string \<Rightarrow> bool" where
  "strings_HasSuffix s suffix =
     (length suffix \<le> length s \<and> drop (length s - length suffix) s = suffix)"

definition strings_TrimSuffix :: "string \<Rightarrow> string \<Rightarrow> string" where
  "strings_TrimSuffix s suffix =
     (if strings_HasSuffix s suffix then take (length s - length suffix) s else s)"

text \<open>
  \<^verbatim>\<open>versionEndpoint\<close> (lines 81-88) updates a copy of the backend URL and returns the
  text that \<^verbatim>\<open>String()\<close> renders for it.
\<close>

definition versionEndpoint :: "env \<Rightarrow> proxyServer \<Rightarrow> string" where
  "versionEndpoint e p =
     (let versionURL = chromiumURL p;
          cleanPath = strings_TrimSuffix (Path versionURL) ''/''
      in URL_String e
           (versionURL\<lparr>Path := cleanPath @ ''/json/version'', RawQuery := '''', Fragment := ''''\<rparr>))"

text \<open>
  \<^verbatim>\<open>http.NewRequestWithContext\<close> rejects a method that is not a token; the context is
  never nil here, and the text of the target, rendered from a parsed URL, is taken to
  parse.
\<close>

definition isTokenChar :: "char \<Rightarrow> bool" where
  "isTokenChar c =
     (let n = (of_char c :: nat)
      in (97 \<le> n \<and> n \<le> 122) \<or> (65 \<le> n \<and> n \<le> 90) \<or> (48 \<le> n \<and> n \<le> 57) \<or>
         c \<in> set ''!#$%&*+-.^_|~'' \<or> n = 39 \<or> n = 96)"

definition validMethod :: "string \<Rightarrow> bool" where
  "validMethod m = (m \<noteq> [] \<and> list_all isTokenChar m)"

definition http_NewRequestWithContext :: "string \<Rightarrow> string \<Rightarrow> string + http_Request" where
  "http_NewRequestWithContext method u =
     (if \<not> validMethod method then Inl (''net/http: invalid method '' @ method)
      else Inr \<lparr>reqMethod = method, reqURL = u\<rparr>)"

definition http_MethodGet :: string where
  "http_MethodGet = ''GET''"

definition http_StatusOK :: nat where
  "http_StatusOK = 200"

text \<open>\<^verbatim>\<open>fetchVersionInfo\<close> (lines 90-116): the result and the events of the call.\<close>

definition fetchVersionInfo ::
  "env \<Rightarrow> proxyServer \<Rightarrow> (string + versionInfo) \<times> event list" where
  "fetchVersionInfo e p =
     (case http_NewRequestWithContext http_MethodGet (versionEndpoint e p) of
        Inl err \<Rightarrow> (Inl err, [])
      | Inr req \<Rightarrow>
          (case client_Do e req of
             Inl err \<Rightarrow> (Inl err, [ClientDo req])
           | Inr resp \<Rightarrow>
               if StatusCode resp \<noteq> http_StatusOK then (Inl (Status resp), [ClientDo req])
               else
                 (case json_Decode e (Body resp) of
                    Inl err \<Rightarrow> (Inl err, [ClientDo req])
                  | Inr info \<Rightarrow>
                      if WebSocketDebuggerURL info = ''''
                      then (Inl ''chromium /json/version response missing webSocketDebuggerUrl'',
                            [ClientDo req])
                      else (Inr info, [ClientDo req]))))"

definition getDebuggerURL :: "proxyServer \<Rightarrow> string" where
  "getDebuggerURL p = debuggerURL p"

text \<open>
  \<^verbatim>\<open>ensureDebuggerURL\<close> (lines 118-136): the error (\<open>None\<close> is Go's nil), the server
  afterwards and the events.
\<close>

definition ensureDebuggerURL ::
  "env \<Rightarrow> proxyServer \<Rightarrow> string option \<times> proxyServer \<times> event list" where
  "ensureDebuggerURL e p =
     (if getDebuggerURL p \<noteq> '''' then (None, p, [])
      else
        (case fetchVersionInfo e p of
           (Inl err, evs) \<Rightarrow> (Some err, p, evs)
         | (Inr info, evs) \<Rightarrow>
             (let debuggerURL' = WebSocketDebuggerURL info
              in (None, p\<lparr>debuggerURL := debuggerURL'\<rparr>,
                  evs @ [LogPrintf ''Chromium debugger endpoint set to %s'' (S debuggerURL')]))))"

section \<open>Dialling the backend (lines 144-157)\<close>

definition http_Header_Set :: "http_Header \<Rightarrow> string \<Rightarrow> string \<Rightarrow> http_Header" where
  "http_Header_Set h k v = (k, v) # filter (\<lambda>kv. fst kv \<noteq> k) h"

definition dialBackend ::
  "env \<Rightarrow> proxyServer \<Rightarrow> string \<Rightarrow> (string + ws_Conn) \<times> proxyServer \<times> event list" where
  "dialBackend e p subprotocol =
     (case ensureDebuggerURL e p of
        (Some err, p', evs) \<Rightarrow> (Inl err, p', evs)
      | (None, p', evs) \<Rightarrow>
          (let target = getDebuggerURL p';
               header = (if subprotocol \<noteq> ''''
                         then http_Header_Set [] ''Sec-WebSocket-Protocol'' subprotocol
                         else [])
           in (dialer_DialContext e target header, p', evs @ [DialContext target header])))"

section \<open>The health route (lines 159-194)\<close>

text \<open>
  What a handler hands to its \<^verbatim>\<open>ResponseWriter\<close>: the status code, the content type and
  the body, which is the text given to \<^verbatim>\<open>http.Error\<close> or the map given to the JSON
  encoder.
\<close>

datatype reply_body = PlainText string | JSONObject "string \<rightharpoonup> string"

record Reply =
  code :: nat
  contentType :: string
  body :: reply_body

definition http_StatusMethodNotAllowed :: nat where
  "http_StatusMethodNotAllowed = 405"

definition http_StatusServiceUnavailable :: nat where
  "http_StatusServiceUnavailable = 503"

definition http_StatusNotFound :: nat where
  "http_StatusNotFound = 404"

definition http_Error :: "string \<Rightarrow> nat \<Rightarrow> Reply" where
  "http_Error msg c = \<lparr>code = c, contentType = ''text/plain; charset=utf-8'', body = PlainText msg\<rparr>"

definition http_NotFound :: Reply where
  "http_NotFound = http_Error ''404 page not found'' http_StatusNotFound"

definition handleHealth :: "env \<Rightarrow> proxyServer \<Rightarrow> Request \<Rightarrow> Reply \<times> proxyServer \<times> event list" where
  "handleHealth e p r =
     (if Method r \<noteq> http_MethodGet
      then (http_Error ''method not allowed'' http_StatusMethodNotAllowed, p, [])
      else
        (case fetchVersionInfo e p of
           (Inl err, evs) \<Rightarrow> (http_Error err http_StatusServiceUnavailable, p, evs)
         | (Inr info, evs) \<Rightarrow>
             (let previous = debuggerURL p;
                  p' = p\<lparr>debuggerURL := WebSocketDebuggerURL info\<rparr>;
                  evs1 = (if previous \<noteq> WebSocketDebuggerURL info
                          then [LogPrintf ''Chromium debugger endpoint updated to %s''
                                  (S (WebSocketDebuggerURL info))]
                          else []);
                  response = [''status'' \<mapsto> ''ok'',
                              ''browser'' \<mapsto> Browser info,
                              ''webSocketDebuggerUrl'' \<mapsto> WebSocketDebuggerURL info,
                              ''protocolVersion'' \<mapsto> ProtocolVersion info];
                  evs2 = (case json_Encode e response of
                            Some err \<Rightarrow> [LogPrintf ''Failed to encode health response: %v'' (S err)]
                          | None \<Rightarrow> [])
              in (\<lparr>code = http_StatusOK, contentType = ''application/json'',
                    body = JSONObject response\<rparr>,
                  p', evs @ evs1 @ evs2))))"

section \<open>The mirror pump (lines 235-248)\<close>

text \<open>
  The loop of \<^verbatim>\<open>mirrorWebsocket\<close> over what the reads of the source return, with \<open>k\<close>
  the number of writes made so far: the calls of \<^verbatim>\<open>ReadMessage\<close> and
  \<^verbatim>\<open>WriteMessage\<close> of the pump with their results, in order, and the error sent to
  \<^verbatim>\<open>errCh\<close>; \<open>None\<close> when the pump is left blocked in a read.
\<close>

datatype pump_event =
    ReadMessage "ws_error + message"
  | WriteMessage message "ws_error option"

fun pump :: "ws_Conn \<Rightarrow> nat \<Rightarrow> (ws_error + message) list \<Rightarrow> pump_event list \<times> ws_error option" where
  "pump dst k [] = ([], None)"
| "pump dst k (Inl err # rs) = ([ReadMessage (Inl err)], Some err)"
| "pump dst k (Inr m # rs) =
     (case writeErr dst k of
        Some err \<Rightarrow> ([ReadMessage (Inr m), WriteMessage m (Some err)], Some err)
      | None \<Rightarrow>
          (case pump dst (Suc k) rs of
             (tr, r) \<Rightarrow> (ReadMessage (Inr m) # WriteMessage m None # tr, r)))"

definition mirrorWebsocket :: "ws_Conn \<Rightarrow> ws_Conn \<Rightarrow> pump_event list \<times> ws_error option" where
  "mirrorWebsocket dst src = pump dst 0 (reads src)"




section \<open>The gateway (lines 196-233)\<close>

definition websocket_CloseMessage :: nat where
  "websocket_CloseMessage = 8"

definition websocket_CloseNormalClosure :: nat where
  "websocket_CloseNormalClosure = 1000"

definition websocket_CloseTryAgainLater :: nat where
  "websocket_CloseTryAgainLater = 1013"

text \<open>The payload of a close frame: the code in two bytes, big-endian, then the text.\<close>

definition websocket_FormatCloseMessage :: "nat \<Rightarrow> string \<Rightarrow> string" where
  "websocket_FormatCloseMessage closeCode txt =
     char_of (closeCode div 256) # char_of (closeCode mod 256) # txt"

fun websocket_IsCloseError :: "ws_error \<Rightarrow> nat \<Rightarrow> bool" where
  "websocket_IsCloseError (CloseError c txt) expected = (c = expected)"
| "websocket_IsCloseError (NetError msg) expected = False"

text \<open>
  How a request ends: with an HTTP reply of a handler, with a redirect that the mux
  answers itself, with a failed upgrade, with the connection closed because the backend
  could not be reached, or with a mirrored session, which carries the calls of the pump
  towards the client, those of the pump towards the backend, and whether the handler
  returned.
\<close>

datatype outcome =
    Replied Reply
  | Redirected string
  | UpgradeFailed
  | Unavailable
  | Mirrored "pump_event list" "pump_event list" bool

text \<open>
  The subprotocol that the handshake of the WebSocket library negotiates, from the list
  of the upgrader, the subprotocols the client asks for and the response header given to
  \<^verbatim>\<open>Upgrade\<close>: the first of the client's that the upgrader lists; with no list, the
  one named in the response header; with neither, none. \<^verbatim>\<open>serveWebSocket\<close> calls
  \<^verbatim>\<open>Upgrade\<close> with a nil response header (line 206).
\<close>

definition http_Header_Get :: "http_Header \<Rightarrow> string \<Rightarrow> string" where
  "http_Header_Get h k = (case map_of h k of Some v \<Rightarrow> v | None \<Rightarrow> '''')"

definition selectSubprotocol :: "Upgrader \<Rightarrow> string list \<Rightarrow> http_Header option \<Rightarrow> string" where
  "selectSubprotocol u clientProtocols responseHeader =
     (case Subprotocols u of
        Some serverProtocols \<Rightarrow>
          (case filter (\<lambda>c. c \<in> set serverProtocols) clientProtocols of
             [] \<Rightarrow> ''''
           | c # cs \<Rightarrow> c)
      | None \<Rightarrow>
          (case responseHeader of
             Some h \<Rightarrow> http_Header_Get h ''Sec-Websocket-Protocol''
           | None \<Rightarrow> ''''))"

text \<open>The first value received from \<^verbatim>\<open>errCh\<close>, if any pump reports.\<close>

definition firstErr :: "bool \<Rightarrow> ws_error option \<Rightarrow> ws_error option \<Rightarrow> ws_error option" where
  "firstErr backendFirst fromBackend fromClient =
     (case fromBackend of
        None \<Rightarrow> fromClient
      | Some e1 \<Rightarrow> (case fromClient of None \<Rightarrow> Some e1
                   | Some e2 \<Rightarrow> if backendFirst then Some e1 else Some e2))"

definition serveWebSocket :: "env \<Rightarrow> proxyServer \<Rightarrow> Request \<Rightarrow> outcome \<times> proxyServer \<times> event list" where
  "serveWebSocket e p r =
     (case upgrader_Upgrade e r of
        Inl err \<Rightarrow>
          (UpgradeFailed, p, [LogPrintf ''Failed to upgrade incoming connection: %v'' (S err)])
      | Inr conn \<Rightarrow>
          (case dialBackend e p (Subprotocol conn) of
             (Inl err, p', evs) \<Rightarrow>
               (Unavailable, p',
                evs @ [LogPrintf ''Failed to connect to Chromium debugger: %v'' (S err),
                       WriteControl Client websocket_CloseMessage
                         (websocket_FormatCloseMessage websocket_CloseTryAgainLater
                            ''upstream unavailable''),
                       ConnClose Client])
           | (Inr backendConn, p', evs) \<Rightarrow>
               (case mirrorWebsocket conn backendConn of
                  (toClient, fromBackend) \<Rightarrow>
                    (case mirrorWebsocket backendConn conn of
                       (toBackend, fromClient) \<Rightarrow>
                         (case firstErr (backendPumpFirst e) fromBackend fromClient of
                            None \<Rightarrow> (Mirrored toClient toBackend False, p', evs)
                          | Some err \<Rightarrow>
                              (Mirrored toClient toBackend True, p',
                               evs @
                               (if \<not> websocket_IsCloseError err websocket_CloseNormalClosure
                                then [LogPrintf ''Proxy connection closed with error: %v'' (W err)]
                                else []) @
                               [ConnClose Backend, ConnClose Client]))))))"

definition handleProxy :: "env \<Rightarrow> proxyServer \<Rightarrow> Request \<Rightarrow> outcome \<times> proxyServer \<times> event list" where
  "handleProxy e p r =
     (if IsWebSocketUpgrade e r then serveWebSocket e p r
      else (Replied http_NotFound, p, []))"

section \<open>The server as a state machine (lines 250-279)\<close>

text \<open>
  \<^verbatim>\<open>start\<close> registers \<^verbatim>\<open>handleHealth\<close> for \<^verbatim>\<open>/healthz\<close> and \<^verbatim>\<open>handleProxy\<close> for
  \<^verbatim>\<open>/\<close>, and calls \<^verbatim>\<open>ensureDebuggerURL\<close> once before serving. The operations that
  reach the server are therefore these three; each comes with the answers of the outside
  at that time.
\<close>

datatype op = Startup | Health Request | Proxy Request

fun step :: "proxyServer \<Rightarrow> env \<times> op \<Rightarrow> proxyServer" where
  "step p (e, Startup) = fst (snd (ensureDebuggerURL e p))"
| "step p (e, Health r) = fst (snd (handleHealth e p r))"
| "step p (e, Proxy r) = fst (snd (handleProxy e p r))"

definition run :: "proxyServer \<Rightarrow> (env \<times> op) list \<Rightarrow> proxyServer" where
  "run p ops = foldl step p ops"

text \<open>
  The handler of the HTTP server is the mux (lines 251-258): what a request receives is
  the redirect of the mux or what the handler does that the mux hands it to.
\<close>

definition mux_ServeHTTP :: "env \<Rightarrow> proxyServer \<Rightarrow> Request \<Rightarrow> outcome \<times> proxyServer \<times> event list" where
  "mux_ServeHTTP e p r =
     (case ServeMux_Handler e r of
        RedirectTo location \<Rightarrow> (Redirected location, p, [])
      | HealthzPattern \<Rightarrow>
          (case handleHealth e p r of (reply, p', evs) \<Rightarrow> (Replied reply, p', evs))
      | RootPattern \<Rightarrow> handleProxy e p r)"

text \<open>The backend requests among the events of an operation.\<close>

fun isBackendRequest :: "event \<Rightarrow> bool" where
  "isBackendRequest (ClientDo req) = True"
| "isBackendRequest _ = False"

definition backendRequests :: "event list \<Rightarrow> event list" where
  "backendRequests evs = filter isBackendRequest evs"

section \<open>Notions of the specification\<close>

text \<open>The request that \<^verbatim>\<open>fetchVersionInfo\<close> builds at line 91.\<close>

definition versionRequest :: "env \<Rightarrow> proxyServer \<Rightarrow> http_Request" where
  "versionRequest e p = \<lparr>reqMethod = ''GET'', reqURL = versionEndpoint e p\<rparr>"

text \<open>A path with its trailing slash stripped, in the words of the specification.\<close>

definition stripTrailingSlash :: "string \<Rightarrow> string" where
  "stripTrailingSlash path =
     (if path \<noteq> [] \<and> last path = CHR ''/'' then butlast path else path)"

text \<open>The subprotocols a client presents in its upgrade request.\<close>

definition presentedSubprotocols :: "Request \<Rightarrow> string list" where
  "presentedSubprotocols r =
     map snd (filter (\<lambda>kv. fst kv = ''Sec-WebSocket-Protocol'') (Header r))"

text \<open>
  Repeated calls of \<^verbatim>\<open>ensureDebuggerURL\<close>, one for each state of the outside in the
  list: the errors returned, the server afterwards and all the events.
\<close>

fun ensureRepeatedly ::
  "env list \<Rightarrow> proxyServer \<Rightarrow> string option list \<times> proxyServer \<times> event list" where
  "ensureRepeatedly [] p = ([], p, [])"
| "ensureRepeatedly (e # es) p =
     (case ensureDebuggerURL e p of
        (r, p', evs) \<Rightarrow>
          (case ensureRepeatedly es p' of
             (rs, p'', evs') \<Rightarrow> (r # rs, p'', evs @ evs')))"

text \<open>The control frames among the events of a handler.\<close>

fun isControlFrame :: "event \<Rightarrow> bool" where
  "isControlFrame (WriteControl to t payload) = True"
| "isControlFrame _ = False"

text \<open>The dials among the events of a handler: target and request header of each.\<close>

fun dialsOf :: "event list \<Rightarrow> (string \<times> http_Header) list" where
  "dialsOf [] = []"
| "dialsOf (DialContext target header # evs) = (target, header) # dialsOf evs"
| "dialsOf (ev # evs) = dialsOf evs"

text \<open>The messages that the reads of a connection return before the first error.\<close>

fun incoming :: "(ws_error + message) list \<Rightarrow> message list" where
  "incoming [] = []"
| "incoming (Inl err # rs) = []"
| "incoming (Inr m # rs) = m # incoming rs"


section \<open>Inputs of the scenarios\<close>

text \<open>The default backend address, parsed.\<close>

definition parsedDefault :: URL where
  "parsedDefault =
     \<lparr>Scheme = ''http'', Opaque = '''', User = None, Host = ''127.0.0.1:9222'', Path = '''',
      RawPath = '''', OmitHost = False, ForceQuery = False, RawQuery = '''', Fragment = '''',
      RawFragment = ''''\<rparr>"

text \<open>
  The address \<^verbatim>\<open>localhost:9222\<close>, parsed: the text before the colon is read as the
  scheme and the rest, which does not begin with a slash, as the opaque part.
\<close>

definition parsedOpaque :: URL where
  "parsedOpaque =
     \<lparr>Scheme = ''localhost'', Opaque = ''9222'', User = None, Host = '''', Path = '''',
      RawPath = '''', OmitHost = False, ForceQuery = False, RawQuery = '''', Fragment = '''',
      RawFragment = ''''\<rparr>"

text \<open>
  The address \<^verbatim>\<open>http://chrome:9222/devtools/?token=1#top\<close>, parsed.
\<close>

definition parsedBusy :: URL where
  "parsedBusy =
     \<lparr>Scheme = ''http'', Opaque = '''', User = None, Host = ''chrome:9222'', Path = ''/devtools/'',
      RawPath = '''', OmitHost = False, ForceQuery = False, RawQuery = ''token=1'',
      Fragment = ''top'', RawFragment = ''''\<rparr>"

text \<open>A parser that knows the three addresses above and rejects every other text.\<close>

definition scenarioParse :: "string \<Rightarrow> string + URL" where
  "scenarioParse s =
     (if s = ''http://127.0.0.1:9222'' then Inr parsedDefault
      else if s = ''localhost:9222'' then Inr parsedOpaque
      else if s = ''http://chrome:9222/devtools/?token=1#top'' then Inr parsedBusy
      else Inl (''parse '' @ s))"

definition undiscovered :: proxyServer where
  "undiscovered = \<lparr>chromiumURL = parsedDefault, listenAddr = '':9223'', debuggerURL = ''''\<rparr>"

definition populated :: proxyServer where
  "populated = undiscovered\<lparr>debuggerURL := ''ws://127.0.0.1:9222/devtools/browser/old''\<rparr>"

text \<open>
  The cleaning of a request path by \<^verbatim>\<open>net/http\<close>: the path is made to begin with a
  slash, empty and \<^verbatim>\<open>.\<close> segments are dropped, a \<^verbatim>\<open>..\<close> segment removes the
  segment before it, and a trailing slash is kept.
\<close>

fun splitSlash :: "string \<Rightarrow> string list" where
  "splitSlash [] = [[]]"
| "splitSlash (c # cs) =
     (if c = CHR ''/'' then [] # splitSlash cs
      else (case splitSlash cs of [] \<Rightarrow> [[c]] | seg # segs \<Rightarrow> (c # seg) # segs))"

fun cleanSegments :: "string list \<Rightarrow> string list \<Rightarrow> string list" where
  "cleanSegments kept [] = rev kept"
| "cleanSegments kept (seg # segs) =
     (if seg = '''' \<or> seg = ''.'' then cleanSegments kept segs
      else if seg = ''..'' then cleanSegments (tl kept) segs
      else cleanSegments (seg # kept) segs)"

definition path_Clean :: "string \<Rightarrow> string" where
  "path_Clean p =
     (case cleanSegments [] (splitSlash p) of
        [] \<Rightarrow> ''/''
      | segs \<Rightarrow> concat (map (\<lambda>seg. CHR ''/'' # seg) segs))"

definition cleanPath :: "string \<Rightarrow> string" where
  "cleanPath p =
     (if p = '''' then ''/''
      else
        (let p' = (if hd p \<noteq> CHR ''/'' then CHR ''/'' # p else p);
             np = path_Clean p'
         in if last p' = CHR ''/'' \<and> np \<noteq> ''/'' then np @ ''/'' else np))"

text \<open>
  The mux of \<^verbatim>\<open>start\<close> for requests whose path carries no escapes: a request other
  than CONNECT whose path is not clean is redirected to the cleaned path; otherwise the
  path \<^verbatim>\<open>/healthz\<close> goes to the health handler and every other path to the catch-all
  handler.
\<close>

definition plainMux :: "Request \<Rightarrow> mux_verdict" where
  "plainMux r =
     (if Method r \<noteq> ''CONNECT'' \<and> cleanPath (URLPath r) \<noteq> URLPath r
      then RedirectTo (cleanPath (URLPath r))
      else if URLPath r = ''/healthz'' then HealthzPattern
      else RootPattern)"

definition scenarioBody :: string where
  \<open>scenarioBody = ''{"Browser":"Chrome/1.0","Protocol-Version":"1.3","webSocketDebuggerUrl":"ws://127.0.0.1:9222/devtools/browser/abc"}''\<close>

definition scenarioInfo :: versionInfo where
  "scenarioInfo =
     \<lparr>Browser = ''Chrome/1.0'', ProtocolVersion = ''1.3'',
      WebSocketDebuggerURL = ''ws://127.0.0.1:9222/devtools/browser/abc''\<rparr>"

text \<open>A decoder that knows the body of the scenario and rejects every other text.\<close>

definition scenarioDecode :: "string \<Rightarrow> string + versionInfo" where
  "scenarioDecode b = (if b = scenarioBody then Inr scenarioInfo else Inl ''unexpected end of JSON input'')"

definition scenarioResponse :: "nat \<Rightarrow> string \<Rightarrow> http_Response" where
  "scenarioResponse c st = \<lparr>StatusCode = c, Status = st, Body = scenarioBody\<rparr>"

text \<open>
  An outside whose backend gives the answer \<open>ans\<close> to every HTTP request and \<open>dial\<close> to
  every dial, and whose upgrade handshake gives \<open>up\<close>. The texts of the scenarios hold
  no character that needs escaping, so the escaping functions return them as they are.
\<close>

definition outside :: "(string + http_Response) \<Rightarrow> (string + ws_Conn) \<Rightarrow> (string + ws_Conn) \<Rightarrow> env" where
  "outside ans dial up =
     \<lparr>client_Do = (\<lambda>req. ans), json_Decode = scenarioDecode,
      dialer_DialContext = (\<lambda>target header. dial),
      IsWebSocketUpgrade = (\<lambda>r. (''Upgrade'', ''websocket'') \<in> set (Header r)),
      upgrader_Upgrade = (\<lambda>r. up), json_Encode = (\<lambda>m. None), backendPumpFirst = True,
      url_Parse = scenarioParse, url_escapeHost = (\<lambda>h. h), url_EscapedPath = Path,
      url_EscapedFragment = Fragment, ServeMux_Handler = plainMux\<rparr>"

text \<open>The version-info request for the default backend address.\<close>

definition versionGET :: http_Request where
  "versionGET = \<lparr>reqMethod = ''GET'', reqURL = ''http://127.0.0.1:9222/json/version''\<rparr>"

definition refused :: "string + ws_Conn" where
  "refused = Inl ''dial tcp 127.0.0.1:9222: connect: connection refused''"

definition refused_http :: "string + http_Response" where
  "refused_http = Inl ''Get http://127.0.0.1:9222/json/version: dial tcp 127.0.0.1:9222: connect: connection refused''"

definition silent :: "string \<Rightarrow> ws_Conn" where
  "silent sub = \<lparr>Subprotocol = sub, reads = [], writeErr = (\<lambda>k. None)\<rparr>"


definition getRequest :: "string \<Rightarrow> Request" where
  "getRequest path = \<lparr>Method = ''GET'', URLPath = path, Header = []\<rparr>"

definition upgradeRequest :: "string \<Rightarrow> Request" where
  "upgradeRequest sub =
     \<lparr>Method = ''GET'', URLPath = ''/'',
      Header = [(''Connection'', ''Upgrade''), (''Upgrade'', ''websocket''),
                (''Sec-WebSocket-Protocol'', sub)]\<rparr>"

definition plainUpgradeRequest :: Request where
  "plainUpgradeRequest =
     \<lparr>Method = ''GET'', URLPath = ''/'',
      Header = [(''Connection'', ''Upgrade''), (''Upgrade'', ''websocket'')]\<rparr>"

text \<open>
  What the handshake of the library gives for a request under the upgrader of the
  server: a connection with the negotiated subprotocol.
\<close>

definition handshake :: "Request \<Rightarrow> string + ws_Conn" where
  "handshake r = Inr (silent (selectSubprotocol proxyUpgrader (presentedSubprotocols r) None))"

section \<open>Facts about discovery\<close>

lemma outside_sel:
  "client_Do (outside ans dial up) = (\<lambda>req. ans)"
  "json_Decode (outside ans dial up) = scenarioDecode"
  "dialer_DialContext (outside ans dial up) = (\<lambda>target header. dial)"
  "IsWebSocketUpgrade (outside ans dial up) = (\<lambda>r. (''Upgrade'', ''websocket'') \<in> set (Header r))"
  "upgrader_Upgrade (outside ans dial up) = (\<lambda>r. up)"
  "json_Encode (outside ans dial up) = (\<lambda>m. None)"
  "backendPumpFirst (outside ans dial up) = True"
  "url_Parse (outside ans dial up) = scenarioParse"
  "url_escapeHost (outside ans dial up) = (\<lambda>h. h)"
  "url_EscapedPath (outside ans dial up) = Path"
  "url_EscapedFragment (outside ans dial up) = Fragment"
  "ServeMux_Handler (outside ans dial up) = plainMux"
  by (simp_all add: outside_def)

lemma plainMux_healthz: "URLPath r = ''/healthz'' \<Longrightarrow> plainMux r = HealthzPattern"
  by (simp add: plainMux_def cleanPath_def path_Clean_def)

lemma plainMux_root: "URLPath r = ''/'' \<Longrightarrow> plainMux r = RootPattern"
  by (simp add: plainMux_def cleanPath_def path_Clean_def)

lemma plainMux_unclean:
  "Method r = ''GET'' \<Longrightarrow> URLPath r = ''//x'' \<Longrightarrow> plainMux r = RedirectTo ''/x''"
  by (simp add: plainMux_def cleanPath_def path_Clean_def)

lemma versionEndpoint_default:
  "chromiumURL p = parsedDefault \<Longrightarrow>
   versionEndpoint (outside ans dial up) p = ''http://127.0.0.1:9222/json/version''"
  by (simp add: versionEndpoint_def URL_String_def parsedDefault_def outside_sel Let_def
      strings_TrimSuffix_def strings_HasSuffix_def)

lemma versionRequest_scenario:
  "versionRequest (outside ans dial up) undiscovered = versionGET"
  "versionRequest (outside ans dial up) populated = versionGET"
  by (simp_all add: versionRequest_def versionGET_def versionEndpoint_default populated_def
      undiscovered_def)

lemma validMethod_GET: "validMethod ''GET''"
  by (simp add: validMethod_def isTokenChar_def)

lemma newRequest_GET:
  "http_NewRequestWithContext http_MethodGet (versionEndpoint e p) = Inr (versionRequest e p)"
  by (simp add: http_NewRequestWithContext_def validMethod_GET versionRequest_def http_MethodGet_def)

lemma fetch_events: "snd (fetchVersionInfo e p) = [ClientDo (versionRequest e p)]"
  by (simp add: fetchVersionInfo_def newRequest_GET split: sum.splits)

lemma fetch_unreachable:
  "client_Do e (versionRequest e p) = Inl err \<Longrightarrow> fst (fetchVersionInfo e p) = Inl err"
  by (simp add: fetchVersionInfo_def newRequest_GET)

lemma fetch_response:
  "client_Do e (versionRequest e p) = Inr resp \<Longrightarrow>
   fst (fetchVersionInfo e p) =
     (if StatusCode resp \<noteq> 200 then Inl (Status resp)
      else case json_Decode e (Body resp) of
             Inl err \<Rightarrow> Inl err
           | Inr info \<Rightarrow>
               if WebSocketDebuggerURL info = ''''
               then Inl ''chromium /json/version response missing webSocketDebuggerUrl''
               else Inr info)"
  by (simp add: fetchVersionInfo_def newRequest_GET http_StatusOK_def split: sum.splits)

lemma fetch_Inr_nonempty:
  "fst (fetchVersionInfo e p) = Inr info \<Longrightarrow> WebSocketDebuggerURL info \<noteq> ''''"
  by (cases "client_Do e (versionRequest e p)")
     (auto simp: fetch_unreachable fetch_response split: if_splits sum.splits)

lemma TrimSuffix_slash: "strings_TrimSuffix path ''/'' = stripTrailingSlash path"
proof (cases path rule: rev_cases)
  case Nil
  then show ?thesis
    by (simp add: strings_TrimSuffix_def strings_HasSuffix_def stripTrailingSlash_def)
next
  case (snoc ys y)
  then show ?thesis
    by (simp add: strings_TrimSuffix_def strings_HasSuffix_def stripTrailingSlash_def)
qed

lemma ensure_populated: "debuggerURL p \<noteq> '''' \<Longrightarrow> ensureDebuggerURL e p = (None, p, [])"
  by (simp add: ensureDebuggerURL_def getDebuggerURL_def)

lemma ensure_undiscovered:
  "debuggerURL p = '''' \<Longrightarrow>
   ensureDebuggerURL e p =
     (case fst (fetchVersionInfo e p) of
        Inl err \<Rightarrow> (Some err, p, [ClientDo (versionRequest e p)])
      | Inr info \<Rightarrow>
          (None, p\<lparr>debuggerURL := WebSocketDebuggerURL info\<rparr>,
           [ClientDo (versionRequest e p),
            LogPrintf ''Chromium debugger endpoint set to %s'' (S (WebSocketDebuggerURL info))]))"
  using fetch_events [of e p]
  by (cases "fetchVersionInfo e p")
     (simp add: ensureDebuggerURL_def getDebuggerURL_def Let_def split: sum.splits)

section \<open>Facts about the health route and repeated discovery\<close>

lemma health_not_get:
  "Method r \<noteq> ''GET'' \<Longrightarrow>
   handleHealth e p r = (http_Error ''method not allowed'' 405, p, [])"
  by (simp add: handleHealth_def http_MethodGet_def http_StatusMethodNotAllowed_def)

lemma health_fetch_failed:
  "Method r = ''GET'' \<Longrightarrow> fst (fetchVersionInfo e p) = Inl err \<Longrightarrow>
   handleHealth e p r = (http_Error err 503, p, [ClientDo (versionRequest e p)])"
  using fetch_events [of e p]
  by (cases "fetchVersionInfo e p")
     (simp add: handleHealth_def http_MethodGet_def http_StatusServiceUnavailable_def)

lemma health_fetch_ok:
  "Method r = ''GET'' \<Longrightarrow> fst (fetchVersionInfo e p) = Inr info \<Longrightarrow>
   fst (handleHealth e p r) =
     \<lparr>code = 200, contentType = ''application/json'',
      body = JSONObject [''status'' \<mapsto> ''ok'', ''browser'' \<mapsto> Browser info,
                         ''webSocketDebuggerUrl'' \<mapsto> WebSocketDebuggerURL info,
                         ''protocolVersion'' \<mapsto> ProtocolVersion info]\<rparr> \<and>
   fst (snd (handleHealth e p r)) = p\<lparr>debuggerURL := WebSocketDebuggerURL info\<rparr> \<and>
   backendRequests (snd (snd (handleHealth e p r))) = [ClientDo (versionRequest e p)]"
  using fetch_events [of e p]
  by (cases "fetchVersionInfo e p")
     (simp add: handleHealth_def http_MethodGet_def http_StatusOK_def Let_def backendRequests_def
        split: option.splits)

lemma ensureRepeatedly_populated:
  "debuggerURL p \<noteq> '''' \<Longrightarrow> ensureRepeatedly es p = (replicate (length es) None, p, [])"
  by (induction es) (simp_all add: ensure_populated)

lemma health_requests:
  "Method r = ''GET'' \<Longrightarrow>
   backendRequests (snd (snd (handleHealth e p r))) = [ClientDo (versionRequest e p)]"
proof (cases "fst (fetchVersionInfo e p)")
  case (Inl err)
  assume "Method r = ''GET''"
  then show ?thesis
    using Inl by (simp add: health_fetch_failed backendRequests_def)
next
  case (Inr info)
  assume "Method r = ''GET''"
  then show ?thesis
    using Inr by (simp add: health_fetch_ok)
qed

section \<open>Facts about the gateway\<close>

lemma close_code_bytes: "char_of (3::nat) = CHR 0x03 \<and> char_of (245::nat) = CHR 0xF5"
  by code_simp

lemma FormatCloseMessage_TryAgainLater:
  "websocket_FormatCloseMessage websocket_CloseTryAgainLater txt = CHR 0x03 # CHR 0xF5 # txt"
  by (simp add: websocket_FormatCloseMessage_def websocket_CloseTryAgainLater_def close_code_bytes)

lemma dialsOf_append: "dialsOf (xs @ ys) = dialsOf xs @ dialsOf ys"
  by (induction xs rule: dialsOf.induct) simp_all

lemma dialBackend_ensure_failed:
  "fst (ensureDebuggerURL e p) = Some err \<Longrightarrow>
   dialBackend e p sub = (Inl err, fst (snd (ensureDebuggerURL e p)), snd (snd (ensureDebuggerURL e p)))"
  by (cases "ensureDebuggerURL e p") (simp add: dialBackend_def)

lemma dialBackend_dials:
  "fst (ensureDebuggerURL e p) = None \<Longrightarrow>
   dialBackend e p sub =
     (dialer_DialContext e (debuggerURL (fst (snd (ensureDebuggerURL e p))))
        (if sub \<noteq> '''' then [(''Sec-WebSocket-Protocol'', sub)] else []),
      fst (snd (ensureDebuggerURL e p)),
      snd (snd (ensureDebuggerURL e p)) @
      [DialContext (debuggerURL (fst (snd (ensureDebuggerURL e p))))
         (if sub \<noteq> '''' then [(''Sec-WebSocket-Protocol'', sub)] else [])])"
  by (cases "ensureDebuggerURL e p")
     (simp add: dialBackend_def getDebuggerURL_def http_Header_Set_def Let_def)

lemma ensure_events_plain:
  "filter isControlFrame (snd (snd (ensureDebuggerURL e p))) = [] \<and>
   dialsOf (snd (snd (ensureDebuggerURL e p))) = []"
  by (cases "debuggerURL p = ''''")
     (auto simp: ensure_populated ensure_undiscovered split: sum.splits)

lemma dialBackend_server:
  "fst (snd (dialBackend e p sub)) = fst (snd (ensureDebuggerURL e p))"
  by (cases "fst (ensureDebuggerURL e p)")
     (simp_all add: dialBackend_dials dialBackend_ensure_failed)

lemma dialBackend_events:
  "filter isControlFrame (snd (snd (dialBackend e p sub))) = [] \<and>
   dialsOf (snd (snd (dialBackend e p sub))) =
     (case fst (ensureDebuggerURL e p) of
        Some err \<Rightarrow> []
      | None \<Rightarrow> [(debuggerURL (fst (snd (ensureDebuggerURL e p))),
                  if sub \<noteq> '''' then [(''Sec-WebSocket-Protocol'', sub)] else [])])"
  using ensure_events_plain [of e p]
  by (cases "fst (ensureDebuggerURL e p)")
     (simp_all add: dialBackend_dials dialBackend_ensure_failed dialsOf_append)

lemma serveWebSocket_unavailable:
  "upgrader_Upgrade e r = Inr conn \<Longrightarrow> fst (dialBackend e p (Subprotocol conn)) = Inl err \<Longrightarrow>
   serveWebSocket e p r =
     (Unavailable, fst (snd (dialBackend e p (Subprotocol conn))),
      snd (snd (dialBackend e p (Subprotocol conn))) @
      [LogPrintf ''Failed to connect to Chromium debugger: %v'' (S err),
       WriteControl Client 8 (CHR 0x03 # CHR 0xF5 # ''upstream unavailable''),
       ConnClose Client])"
  by (cases "dialBackend e p (Subprotocol conn)")
     (simp add: serveWebSocket_def websocket_CloseMessage_def FormatCloseMessage_TryAgainLater)

lemma serveWebSocket_mirrored:
  "upgrader_Upgrade e r = Inr conn \<Longrightarrow>
   fst (dialBackend e p (Subprotocol conn)) = Inr backendConn \<Longrightarrow>
   \<exists>ret tl.
     serveWebSocket e p r =
       (Mirrored (fst (mirrorWebsocket conn backendConn)) (fst (mirrorWebsocket backendConn conn)) ret,
        fst (snd (dialBackend e p (Subprotocol conn))),
        snd (snd (dialBackend e p (Subprotocol conn))) @ tl) \<and>
     dialsOf tl = []"
  by (cases "dialBackend e p (Subprotocol conn)")
     (auto simp: serveWebSocket_def split: prod.splits option.splits)

section \<open>Facts about the pump and the cache\<close>






lemma ensure_cache:
  "fst (snd (ensureDebuggerURL e p)) = p \<or>
   (\<exists>info. fst (fetchVersionInfo e p) = Inr info \<and> WebSocketDebuggerURL info \<noteq> '''' \<and>
      fst (snd (ensureDebuggerURL e p)) = p\<lparr>debuggerURL := WebSocketDebuggerURL info\<rparr>)"
proof (cases "debuggerURL p = ''''")
  case True
  then show ?thesis
    by (cases "fst (fetchVersionInfo e p)") (auto simp: ensure_undiscovered fetch_Inr_nonempty)
next
  case False
  then show ?thesis by (simp add: ensure_populated)
qed

lemma health_cache:
  "fst (snd (handleHealth e p r)) = p \<or>
   (\<exists>info. fst (fetchVersionInfo e p) = Inr info \<and> WebSocketDebuggerURL info \<noteq> '''' \<and>
      fst (snd (handleHealth e p r)) = p\<lparr>debuggerURL := WebSocketDebuggerURL info\<rparr>)"
proof (cases "Method r = ''GET''")
  case True
  then show ?thesis
    by (cases "fst (fetchVersionInfo e p)")
       (auto simp: health_fetch_failed health_fetch_ok fetch_Inr_nonempty)
next
  case False
  then show ?thesis by (simp add: health_not_get)
qed

lemma serveWebSocket_server:
  "fst (snd (serveWebSocket e p r)) = p \<or>
   fst (snd (serveWebSocket e p r)) = fst (snd (ensureDebuggerURL e p))"
proof (cases "upgrader_Upgrade e r")
  case (Inl err)
  then show ?thesis by (simp add: serveWebSocket_def)
next
  case (Inr conn)
  show ?thesis
  proof (cases "fst (dialBackend e p (Subprotocol conn))")
    case (Inl err)
    then show ?thesis
      using serveWebSocket_unavailable [OF Inr Inl] by (simp add: dialBackend_server)
  next
    case (Inr backendConn)
    then show ?thesis
      using serveWebSocket_mirrored [OF \<open>upgrader_Upgrade e r = Inr conn\<close> Inr]
      by (auto simp: dialBackend_server)
  qed
qed

lemma proxy_server:
  "fst (snd (handleProxy e p r)) = p \<or>
   fst (snd (handleProxy e p r)) = fst (snd (ensureDebuggerURL e p))"
  using serveWebSocket_server [of e p r] by (simp add: handleProxy_def)

lemma step_keeps_populated: "debuggerURL p \<noteq> '''' \<Longrightarrow> debuggerURL (step p x) \<noteq> ''''"
proof (cases x)
  case (Pair e opn)
  assume ne: "debuggerURL p \<noteq> ''''"
  show ?thesis
  proof (cases opn)
    case Startup
    then show ?thesis using Pair ne by (simp add: ensure_populated)
  next
    case (Health r)
    then show ?thesis using Pair ne health_cache [of e p r] by auto
  next
    case (Proxy r)
    then show ?thesis using Pair ne proxy_server [of e p r] by (auto simp: ensure_populated)
  qed
qed

lemma run_keeps_populated: "debuggerURL p \<noteq> '''' \<Longrightarrow> debuggerURL (run p ops) \<noteq> ''''"
  unfolding run_def by (induction ops arbitrary: p) (simp_all add: step_keeps_populated)

section \<open>The claims\<close>

text \<open>
  C10, as the code has it. For a server that \<^verbatim>\<open>newProxyServer\<close> constructed from a
  backend address whose parse is not opaque, in any later state, the target of the
  version-info request is the text that renders: the scheme and a colon; two slashes, the
  user information and the host with its port as configured (nothing when the address
  has a single slash after the scheme and no host); the escaped form of the configured
  path with its trailing slash stripped and \<^verbatim>\<open>/json/version\<close> appended; no query
  string, only a question mark when the address ended in an empty query; and no
  fragment. The request of \<^verbatim>\<open>fetchVersionInfo\<close> is a GET of exactly this text.
\<close>

theorem versionEndpoint_target:
  assumes "newProxyServer e chromiumEndpoint listen = Inr p0"
    and "chromiumURL p = chromiumURL p0"
    and "Opaque (chromiumURL p) = ''''"
  shows "versionEndpoint e p =
           Scheme (chromiumURL p) @ '':'' @
           (if OmitHost (chromiumURL p) \<and> Host (chromiumURL p) = '''' \<and> User (chromiumURL p) = None
            then ''''
            else ''//'' @
                 (case User (chromiumURL p) of Some ui \<Rightarrow> ui @ ''@'' | None \<Rightarrow> '''') @
                 (if Host (chromiumURL p) \<noteq> '''' then url_escapeHost e (Host (chromiumURL p))
                  else '''')) @
           (let path = url_EscapedPath e
                         ((chromiumURL p)
                            \<lparr>Path := stripTrailingSlash (Path (chromiumURL p)) @ ''/json/version'',
                             RawQuery := '''', Fragment := ''''\<rparr>)
            in (if path \<noteq> '''' \<and> hd path \<noteq> CHR ''/'' \<and> Host (chromiumURL p) \<noteq> ''''
                then ''/'' else '''') @ path) @
           (if ForceQuery (chromiumURL p) then ''?'' else '''')
         \<and> snd (fetchVersionInfo e p) = [ClientDo \<lparr>reqMethod = ''GET'', reqURL = versionEndpoint e p\<rparr>]"
proof -
  have "Scheme (chromiumURL p0) \<noteq> ''''"
    using assms(1) by (auto simp: newProxyServer_def Let_def split: sum.splits if_splits)
  then have "Scheme (chromiumURL p) \<noteq> ''''"
    using assms(2) by simp
  then show ?thesis
    using assms(3)
    by (simp add: versionEndpoint_def URL_String_def TrimSuffix_slash fetch_events
        versionRequest_def Let_def)
qed

text \<open>
  The theorem at the default address and at an address with a path that ends in a
  slash, a query and a fragment.
\<close>

theorem versionEndpoint_target_witness:
  "newProxyServer (outside refused_http refused refused) '''' '''' = Inr undiscovered \<and>
   versionEndpoint (outside refused_http refused refused) populated
     = ''http://127.0.0.1:9222/json/version'' \<and>
   versionEndpoint (outside refused_http refused refused) (undiscovered\<lparr>chromiumURL := parsedBusy\<rparr>)
     = ''http://chrome:9222/devtools/json/version''"
proof -
  let ?e = "outside refused_http refused refused"
  have c1: "newProxyServer ?e '''' '''' = Inr undiscovered"
    by (simp add: newProxyServer_def outside_sel scenarioParse_def defaultDebugURL_def
        defaultListen_def undiscovered_def parsedDefault_def)
  have c2: "newProxyServer ?e ''http://chrome:9222/devtools/?token=1#top'' ''''
      = Inr (undiscovered\<lparr>chromiumURL := parsedBusy\<rparr>)"
    by (simp add: newProxyServer_def outside_sel scenarioParse_def defaultListen_def
        undiscovered_def parsedBusy_def)
  have u1: "chromiumURL populated = chromiumURL undiscovered"
    by (simp add: populated_def)
  have o1: "Opaque (chromiumURL populated) = ''''"
    by (simp add: populated_def undiscovered_def parsedDefault_def)
  have o2: "Opaque (chromiumURL (undiscovered\<lparr>chromiumURL := parsedBusy\<rparr>)) = ''''"
    by (simp add: parsedBusy_def)
  have t1: "versionEndpoint ?e populated = ''http://127.0.0.1:9222/json/version''"
    using versionEndpoint_target [OF c1 u1 o1]
    by (simp add: populated_def undiscovered_def parsedDefault_def outside_sel
        stripTrailingSlash_def)
  have t2: "versionEndpoint ?e (undiscovered\<lparr>chromiumURL := parsedBusy\<rparr>)
      = ''http://chrome:9222/devtools/json/version''"
    using versionEndpoint_target [OF c2 refl o2]
    by (simp add: parsedBusy_def outside_sel stripTrailingSlash_def)
  from c1 t1 t2 show ?thesis by simp
qed

text \<open>
  C10 as stated fails: the address \<^verbatim>\<open>localhost:9222\<close> passes the check of the scheme
  in \<^verbatim>\<open>newProxyServer\<close>, since its parse has the scheme \<^verbatim>\<open>localhost\<close> and the
  opaque part \<^verbatim>\<open>9222\<close>, and the version-info request then targets
  \<^verbatim>\<open>localhost:9222\<close>, without \<^verbatim>\<open>/json/version\<close>.
\<close>

theorem opaque_endpoint_counterexample:
  "newProxyServer (outside refused_http refused refused) ''localhost:9222'' ''''
     = Inr (undiscovered\<lparr>chromiumURL := parsedOpaque\<rparr>) \<and>
   versionEndpoint (outside refused_http refused refused) (undiscovered\<lparr>chromiumURL := parsedOpaque\<rparr>)
     = ''localhost:9222'' \<and>
   snd (fetchVersionInfo (outside refused_http refused refused) (undiscovered\<lparr>chromiumURL := parsedOpaque\<rparr>))
     = [ClientDo \<lparr>reqMethod = ''GET'', reqURL = ''localhost:9222''\<rparr>]"
proof -
  let ?e = "outside refused_http refused refused"
  have c: "newProxyServer ?e ''localhost:9222'' '''' = Inr (undiscovered\<lparr>chromiumURL := parsedOpaque\<rparr>)"
    by (simp add: newProxyServer_def outside_sel scenarioParse_def defaultListen_def
        undiscovered_def parsedOpaque_def)
  have t: "versionEndpoint ?e (undiscovered\<lparr>chromiumURL := parsedOpaque\<rparr>) = ''localhost:9222''"
    by (simp add: versionEndpoint_def URL_String_def parsedOpaque_def Let_def)
  from c t show ?thesis
    by (simp add: fetch_events versionRequest_def)
qed

text \<open>
  C1, as the code has it. When the cache is empty and the backend answers the
  version-info request with status 200, a body that the decoder accepts and a non-empty
  \<^verbatim>\<open>webSocketDebuggerUrl\<close>, \<^verbatim>\<open>ensureDebuggerURL\<close> returns nil and the cache holds
  exactly that address afterwards.
\<close>

theorem ensure_discovers:
  assumes "debuggerURL p = ''''"
    and "client_Do e (versionRequest e p) = Inr resp"
    and "StatusCode resp = 200"
    and "json_Decode e (Body resp) = Inr info"
    and "WebSocketDebuggerURL info \<noteq> ''''"
  shows "fst (ensureDebuggerURL e p) = None \<and>
         debuggerURL (fst (snd (ensureDebuggerURL e p))) = WebSocketDebuggerURL info"
proof -
  have "fst (fetchVersionInfo e p) = Inr info"
    using assms by (simp add: fetch_response)
  then show ?thesis
    using assms(1) by (simp add: ensure_undiscovered)
qed

text \<open>The theorem at the answer of the scenario, on an empty cache.\<close>

theorem ensure_discovers_witness:
  "fst (ensureDebuggerURL (outside (Inr (scenarioResponse 200 ''200 OK'')) refused refused) undiscovered) = None \<and>
   debuggerURL (fst (snd (ensureDebuggerURL (outside (Inr (scenarioResponse 200 ''200 OK'')) refused refused) undiscovered)))
     = ''ws://127.0.0.1:9222/devtools/browser/abc''"
  using ensure_discovers [of undiscovered "outside (Inr (scenarioResponse 200 ''200 OK'')) refused refused"
      "scenarioResponse 200 ''200 OK''" scenarioInfo]
  by (simp add: undiscovered_def outside_def scenarioResponse_def scenarioDecode_def scenarioInfo_def)

text \<open>
  C1 as stated fails: the answer \<^verbatim>\<open>201 Created\<close> has a successful status, a body that
  decodes and a non-empty address, yet \<^verbatim>\<open>ensureDebuggerURL\<close> returns the status line as
  its error (line 102 compares with \<^verbatim>\<open>http.StatusOK\<close>) and the cache stays empty.
\<close>

theorem ensure_created_counterexample:
  "debuggerURL undiscovered = '''' \<and>
   client_Do (outside (Inr (scenarioResponse 201 ''201 Created'')) refused refused) versionGET
     = Inr (scenarioResponse 201 ''201 Created'') \<and>
   200 \<le> StatusCode (scenarioResponse 201 ''201 Created'') \<and>
   StatusCode (scenarioResponse 201 ''201 Created'') < 300 \<and>
   json_Decode (outside (Inr (scenarioResponse 201 ''201 Created'')) refused refused)
     (Body (scenarioResponse 201 ''201 Created'')) = Inr scenarioInfo \<and>
   WebSocketDebuggerURL scenarioInfo \<noteq> '''' \<and>
   fst (ensureDebuggerURL (outside (Inr (scenarioResponse 201 ''201 Created'')) refused refused) undiscovered)
     = Some ''201 Created'' \<and>
   debuggerURL (fst (snd (ensureDebuggerURL (outside (Inr (scenarioResponse 201 ''201 Created'')) refused refused) undiscovered)))
     = ''''"
proof -
  have "fst (fetchVersionInfo (outside (Inr (scenarioResponse 201 ''201 Created'')) refused refused) undiscovered)
        = Inl ''201 Created''"
    by (simp add: fetch_response outside_def scenarioResponse_def)
  then show ?thesis
    by (simp add: ensure_undiscovered undiscovered_def outside_def scenarioResponse_def
        scenarioDecode_def scenarioInfo_def)
qed

text \<open>
  C2, as the code has it. \<^verbatim>\<open>fetchVersionInfo\<close> fails exactly when the HTTP client
  returns an error (the backend is unreachable), when the status is not 200, when the
  decoder rejects the body, or when the decoded \<^verbatim>\<open>webSocketDebuggerUrl\<close> is empty; for
  every other answer, that is every answer with status 200 whose body decodes with a
  non-empty address, whatever the other fields, it succeeds with the decoded value. When
  discovery fails, \<^verbatim>\<open>ensureDebuggerURL\<close> and \<^verbatim>\<open>handleHealth\<close> leave the server,
  and with it the cache, as it was.
\<close>

theorem fetch_fails_exactly:
  "(\<exists>err. fst (fetchVersionInfo e p) = Inl err) =
     (case client_Do e (versionRequest e p) of
        Inl err \<Rightarrow> True
      | Inr resp \<Rightarrow>
          StatusCode resp \<noteq> 200 \<or>
          (case json_Decode e (Body resp) of
             Inl err \<Rightarrow> True
           | Inr info \<Rightarrow> WebSocketDebuggerURL info = ''''))
   \<and> (\<forall>resp info.
         client_Do e (versionRequest e p) = Inr resp \<and> StatusCode resp = 200 \<and>
         json_Decode e (Body resp) = Inr info \<and> WebSocketDebuggerURL info \<noteq> '''' \<longrightarrow>
         fst (fetchVersionInfo e p) = Inr info)
   \<and> (fst (ensureDebuggerURL e p) \<noteq> None \<longrightarrow> fst (snd (ensureDebuggerURL e p)) = p)
   \<and> (\<forall>r err. fst (fetchVersionInfo e p) = Inl err \<longrightarrow> fst (snd (handleHealth e p r)) = p)"
proof (intro conjI allI impI)
  show "(\<exists>err. fst (fetchVersionInfo e p) = Inl err) =
     (case client_Do e (versionRequest e p) of
        Inl err \<Rightarrow> True
      | Inr resp \<Rightarrow>
          StatusCode resp \<noteq> 200 \<or>
          (case json_Decode e (Body resp) of
             Inl err \<Rightarrow> True
           | Inr info \<Rightarrow> WebSocketDebuggerURL info = ''''))"
    by (cases "client_Do e (versionRequest e p)")
       (auto simp: fetch_unreachable fetch_response split: sum.splits)
next
  fix resp info
  assume "client_Do e (versionRequest e p) = Inr resp \<and> StatusCode resp = 200 \<and>
         json_Decode e (Body resp) = Inr info \<and> WebSocketDebuggerURL info \<noteq> ''''"
  then show "fst (fetchVersionInfo e p) = Inr info"
    by (simp add: fetch_response)
next
  assume "fst (ensureDebuggerURL e p) \<noteq> None"
  then show "fst (snd (ensureDebuggerURL e p)) = p"
    by (cases "debuggerURL p = ''''")
       (auto simp: ensure_populated ensure_undiscovered split: sum.splits)
next
  fix r err
  assume "fst (fetchVersionInfo e p) = Inl err"
  then show "fst (snd (handleHealth e p r)) = p"
    by (cases "Method r = ''GET''") (simp_all add: health_not_get health_fetch_failed)
qed

text \<open>
  The theorem at a backend that refuses the connection, with a populated cache, and at
  the answer of the scenario.
\<close>

theorem fetch_fails_exactly_witness:
  "(\<exists>err. fst (fetchVersionInfo (outside refused_http refused refused) populated) = Inl err) \<and>
   fst (snd (handleHealth (outside refused_http refused refused) populated (getRequest ''/healthz''))) = populated \<and>
   fst (fetchVersionInfo (outside (Inr (scenarioResponse 200 ''200 OK'')) refused refused) undiscovered) = Inr scenarioInfo"
  using fetch_fails_exactly [of "outside refused_http refused refused" populated]
    fetch_fails_exactly [of "outside (Inr (scenarioResponse 200 ''200 OK'')) refused refused" undiscovered]
  by (simp add: outside_def refused_http_def scenarioResponse_def scenarioDecode_def scenarioInfo_def)

text \<open>
  C2 as stated fails: the answer \<^verbatim>\<open>203 Non-Authoritative Information\<close> is a 2xx answer
  whose body decodes with a non-empty address, and \<^verbatim>\<open>fetchVersionInfo\<close> fails on it
  with the status line as its error.
\<close>

theorem fetch_203_counterexample:
  "client_Do (outside (Inr (scenarioResponse 203 ''203 Non-Authoritative Information'')) refused refused)
      versionGET
     = Inr (scenarioResponse 203 ''203 Non-Authoritative Information'') \<and>
   200 \<le> StatusCode (scenarioResponse 203 ''203 Non-Authoritative Information'') \<and>
   StatusCode (scenarioResponse 203 ''203 Non-Authoritative Information'') < 300 \<and>
   json_Decode (outside (Inr (scenarioResponse 203 ''203 Non-Authoritative Information'')) refused refused)
     (Body (scenarioResponse 203 ''203 Non-Authoritative Information'')) = Inr scenarioInfo \<and>
   WebSocketDebuggerURL scenarioInfo \<noteq> '''' \<and>
   fst (fetchVersionInfo (outside (Inr (scenarioResponse 203 ''203 Non-Authoritative Information'')) refused refused)
          undiscovered)
     = Inl ''203 Non-Authoritative Information''"
  by (simp add: fetch_response outside_def scenarioResponse_def scenarioDecode_def scenarioInfo_def)

text \<open>
  C7. When the cache holds a non-empty value, \<^verbatim>\<open>ensureDebuggerURL\<close> returns nil with
  no event at all, so without any backend request, and leaves the server unchanged; any
  number of repeated calls, whatever the backend would answer, return nil each, change
  nothing and issue no backend request.
\<close>

theorem ensure_populated_noop:
  assumes "debuggerURL p \<noteq> ''''"
  shows "ensureDebuggerURL e p = (None, p, []) \<and>
         ensureRepeatedly es p = (replicate (length es) None, p, []) \<and>
         backendRequests (snd (snd (ensureRepeatedly es p))) = []"
  using assms by (simp add: ensure_populated ensureRepeatedly_populated backendRequests_def)

text \<open>The theorem at three calls on a populated cache, the second with the backend down.\<close>

theorem ensure_populated_noop_witness:
  "ensureDebuggerURL (outside (Inr (scenarioResponse 200 ''200 OK'')) refused refused) populated
     = (None, populated, []) \<and>
   ensureRepeatedly [outside (Inr (scenarioResponse 200 ''200 OK'')) refused refused,
                     outside refused_http refused refused,
                     outside (Inr (scenarioResponse 200 ''200 OK'')) refused refused] populated
     = ([None, None, None], populated, [])"
proof -
  have h: "debuggerURL populated \<noteq> []"
    by (simp add: populated_def)
  show ?thesis
    using ensure_populated_noop [OF h, of "outside (Inr (scenarioResponse 200 ''200 OK'')) refused refused"
      "[outside (Inr (scenarioResponse 200 ''200 OK'')) refused refused,
        outside refused_http refused refused,
        outside (Inr (scenarioResponse 200 ''200 OK'')) refused refused]"]
    by (simp del: ensureRepeatedly.simps)
qed

text \<open>
  C3. A GET request to the health route issues exactly one backend request, the
  version-info request, whatever the cache holds. When the fetch succeeds, the cache is
  overwritten with the fetched address and the reply has status 200 and, as its JSON
  body, the object with \<^verbatim>\<open>status\<close> \<^verbatim>\<open>ok\<close> and the \<^verbatim>\<open>browser\<close>,
  \<^verbatim>\<open>webSocketDebuggerUrl\<close> and \<^verbatim>\<open>protocolVersion\<close> of the fetched version info. In
  particular, when the backend answers 200 with the body of the scenario, which the
  decoder reads by the tags of \<^verbatim>\<open>versionInfo\<close>, the reply is 200 with the object of the
  scenario.
\<close>

theorem health_get:
  assumes "Method r = ''GET''"
  shows "backendRequests (snd (snd (handleHealth e p r))) = [ClientDo (versionRequest e p)] \<and>
    (\<forall>info. fst (fetchVersionInfo e p) = Inr info \<longrightarrow>
       debuggerURL (fst (snd (handleHealth e p r))) = WebSocketDebuggerURL info \<and>
       fst (handleHealth e p r) =
         \<lparr>code = 200, contentType = ''application/json'',
          body = JSONObject [''status'' \<mapsto> ''ok'', ''browser'' \<mapsto> Browser info,
                             ''webSocketDebuggerUrl'' \<mapsto> WebSocketDebuggerURL info,
                             ''protocolVersion'' \<mapsto> ProtocolVersion info]\<rparr>) \<and>
    (\<forall>resp. client_Do e (versionRequest e p) = Inr resp \<and> StatusCode resp = 200 \<and>
       Body resp = scenarioBody \<and> json_Decode e scenarioBody = Inr scenarioInfo \<longrightarrow>
       code (fst (handleHealth e p r)) = 200 \<and>
       body (fst (handleHealth e p r)) =
         JSONObject [''status'' \<mapsto> ''ok'', ''browser'' \<mapsto> ''Chrome/1.0'',
                     ''webSocketDebuggerUrl'' \<mapsto> ''ws://127.0.0.1:9222/devtools/browser/abc'',
                     ''protocolVersion'' \<mapsto> ''1.3''])"
proof (intro conjI allI impI)
  show "backendRequests (snd (snd (handleHealth e p r))) = [ClientDo (versionRequest e p)]"
    using assms by (rule health_requests)
next
  fix info
  assume ok: "fst (fetchVersionInfo e p) = Inr info"
  show "debuggerURL (fst (snd (handleHealth e p r))) = WebSocketDebuggerURL info"
    using health_fetch_ok [OF assms ok] by simp
  show "fst (handleHealth e p r) =
         \<lparr>code = 200, contentType = ''application/json'',
          body = JSONObject [''status'' \<mapsto> ''ok'', ''browser'' \<mapsto> Browser info,
                             ''webSocketDebuggerUrl'' \<mapsto> WebSocketDebuggerURL info,
                             ''protocolVersion'' \<mapsto> ProtocolVersion info]\<rparr>"
    using health_fetch_ok [OF assms ok] by simp
next
  fix resp
  assume h: "client_Do e (versionRequest e p) = Inr resp \<and> StatusCode resp = 200 \<and>
       Body resp = scenarioBody \<and> json_Decode e scenarioBody = Inr scenarioInfo"
  then have ok: "fst (fetchVersionInfo e p) = Inr scenarioInfo"
    by (simp add: fetch_response scenarioInfo_def)
  show "code (fst (handleHealth e p r)) = 200"
    using health_fetch_ok [OF assms ok] by simp
  show "body (fst (handleHealth e p r)) =
         JSONObject [''status'' \<mapsto> ''ok'', ''browser'' \<mapsto> ''Chrome/1.0'',
                     ''webSocketDebuggerUrl'' \<mapsto> ''ws://127.0.0.1:9222/devtools/browser/abc'',
                     ''protocolVersion'' \<mapsto> ''1.3'']"
    using health_fetch_ok [OF assms ok] by (simp add: scenarioInfo_def)
qed

text \<open>The theorem at the scenario, with a cache that already holds another address.\<close>

theorem health_get_witness:
  "backendRequests (snd (snd (handleHealth (outside (Inr (scenarioResponse 200 ''200 OK'')) refused refused)
       populated (getRequest ''/healthz''))))
     = [ClientDo versionGET] \<and>
   debuggerURL (fst (snd (handleHealth (outside (Inr (scenarioResponse 200 ''200 OK'')) refused refused)
       populated (getRequest ''/healthz''))))
     = ''ws://127.0.0.1:9222/devtools/browser/abc'' \<and>
   code (fst (handleHealth (outside (Inr (scenarioResponse 200 ''200 OK'')) refused refused)
       populated (getRequest ''/healthz''))) = 200 \<and>
   body (fst (handleHealth (outside (Inr (scenarioResponse 200 ''200 OK'')) refused refused)
       populated (getRequest ''/healthz'')))
     = JSONObject [''status'' \<mapsto> ''ok'', ''browser'' \<mapsto> ''Chrome/1.0'',
                   ''webSocketDebuggerUrl'' \<mapsto> ''ws://127.0.0.1:9222/devtools/browser/abc'',
                   ''protocolVersion'' \<mapsto> ''1.3'']"
proof -
  let ?e = "outside (Inr (scenarioResponse 200 ''200 OK'')) refused refused"
  have g: "Method (getRequest ''/healthz'') = ''GET''"
    by (simp add: getRequest_def)
  have ok: "fst (fetchVersionInfo ?e populated) = Inr scenarioInfo"
    by (simp add: fetch_response outside_def scenarioResponse_def scenarioDecode_def scenarioInfo_def)
  have sc: "client_Do ?e (versionRequest ?e populated) = Inr (scenarioResponse 200 ''200 OK'') \<and>
       StatusCode (scenarioResponse 200 ''200 OK'') = 200 \<and>
       Body (scenarioResponse 200 ''200 OK'') = scenarioBody \<and> json_Decode ?e scenarioBody = Inr scenarioInfo"
    by (simp add: outside_def scenarioResponse_def scenarioDecode_def)
  show ?thesis
    using health_get [OF g, of ?e populated] ok sc
    by (simp add: scenarioInfo_def versionRequest_scenario)
qed

text \<open>
  C8, as the code has it. The health handler answers a method other than GET with 405,
  with no event and the server unchanged, and answers a GET whose fetch fails with 503
  and the error of the fetch as plain text, the server unchanged; the mux hands it the
  requests that match \<^verbatim>\<open>/healthz\<close>. A request that is not an upgrade request and that
  the mux hands to the catch-all handler is answered 404, whatever its path. A request
  that the mux answers itself, with a redirect, reaches no handler: it receives the
  redirect, with no event and the server unchanged.
\<close>

theorem http_error_surface:
  "(Method r \<noteq> ''GET'' \<longrightarrow>
      handleHealth e p r =
        (\<lparr>code = 405, contentType = ''text/plain; charset=utf-8'',
           body = PlainText ''method not allowed''\<rparr>, p, [])) \<and>
   (\<forall>err. Method r = ''GET'' \<and> fst (fetchVersionInfo e p) = Inl err \<longrightarrow>
      fst (handleHealth e p r) =
        \<lparr>code = 503, contentType = ''text/plain; charset=utf-8'', body = PlainText err\<rparr> \<and>
      fst (snd (handleHealth e p r)) = p) \<and>
   (\<not> IsWebSocketUpgrade e r \<longrightarrow>
      handleProxy e p r =
        (Replied \<lparr>code = 404, contentType = ''text/plain; charset=utf-8'',
                   body = PlainText ''404 page not found''\<rparr>, p, [])) \<and>
   (ServeMux_Handler e r = HealthzPattern \<longrightarrow>
      mux_ServeHTTP e p r = (Replied (fst (handleHealth e p r)), snd (handleHealth e p r))) \<and>
   (ServeMux_Handler e r = RootPattern \<and> \<not> IsWebSocketUpgrade e r \<longrightarrow>
      mux_ServeHTTP e p r =
        (Replied \<lparr>code = 404, contentType = ''text/plain; charset=utf-8'',
                   body = PlainText ''404 page not found''\<rparr>, p, [])) \<and>
   (\<forall>location. ServeMux_Handler e r = RedirectTo location \<longrightarrow>
      mux_ServeHTTP e p r = (Redirected location, p, [])) \<and>
   (ServeMux_Handler e = plainMux \<and> \<not> IsWebSocketUpgrade e r \<and> URLPath r \<noteq> ''/healthz'' \<and>
    (Method r = ''CONNECT'' \<or> cleanPath (URLPath r) = URLPath r) \<longrightarrow>
      mux_ServeHTTP e p r =
        (Replied \<lparr>code = 404, contentType = ''text/plain; charset=utf-8'',
                   body = PlainText ''404 page not found''\<rparr>, p, []))"
proof -
  have handlers:
    "Method r \<noteq> ''GET'' \<longrightarrow>
      handleHealth e p r =
        (\<lparr>code = 405, contentType = ''text/plain; charset=utf-8'',
           body = PlainText ''method not allowed''\<rparr>, p, [])"
    "\<forall>err. Method r = ''GET'' \<and> fst (fetchVersionInfo e p) = Inl err \<longrightarrow>
      fst (handleHealth e p r) =
        \<lparr>code = 503, contentType = ''text/plain; charset=utf-8'', body = PlainText err\<rparr> \<and>
      fst (snd (handleHealth e p r)) = p"
    by (simp_all add: health_not_get health_fetch_failed http_Error_def)
  have notFound: "\<not> IsWebSocketUpgrade e r \<longrightarrow>
      handleProxy e p r =
        (Replied \<lparr>code = 404, contentType = ''text/plain; charset=utf-8'',
                   body = PlainText ''404 page not found''\<rparr>, p, [])"
    by (simp add: handleProxy_def http_NotFound_def http_StatusNotFound_def http_Error_def)
  have health: "ServeMux_Handler e r = HealthzPattern \<longrightarrow>
      mux_ServeHTTP e p r = (Replied (fst (handleHealth e p r)), snd (handleHealth e p r))"
    by (simp add: mux_ServeHTTP_def split: prod.splits)
  have root: "ServeMux_Handler e r = RootPattern \<longrightarrow> mux_ServeHTTP e p r = handleProxy e p r"
    by (simp add: mux_ServeHTTP_def)
  have redirect: "\<forall>location. ServeMux_Handler e r = RedirectTo location \<longrightarrow>
      mux_ServeHTTP e p r = (Redirected location, p, [])"
    by (simp add: mux_ServeHTTP_def)
  have plain: "ServeMux_Handler e = plainMux \<and> URLPath r \<noteq> ''/healthz'' \<and>
      (Method r = ''CONNECT'' \<or> cleanPath (URLPath r) = URLPath r) \<longrightarrow>
      ServeMux_Handler e r = RootPattern"
    by (auto simp: plainMux_def)
  from root notFound have rootNotFound:
    "ServeMux_Handler e r = RootPattern \<and> \<not> IsWebSocketUpgrade e r \<longrightarrow>
      mux_ServeHTTP e p r =
        (Replied \<lparr>code = 404, contentType = ''text/plain; charset=utf-8'',
                   body = PlainText ''404 page not found''\<rparr>, p, [])"
    by simp
  from plain rootNotFound have plainNotFound:
    "ServeMux_Handler e = plainMux \<and> \<not> IsWebSocketUpgrade e r \<and> URLPath r \<noteq> ''/healthz'' \<and>
    (Method r = ''CONNECT'' \<or> cleanPath (URLPath r) = URLPath r) \<longrightarrow>
      mux_ServeHTTP e p r =
        (Replied \<lparr>code = 404, contentType = ''text/plain; charset=utf-8'',
                   body = PlainText ''404 page not found''\<rparr>, p, [])"
    by blast
  from handlers notFound health rootNotFound redirect plainNotFound show ?thesis
    by - (intro conjI; assumption)
qed

text \<open>
  The theorem through the mux: at a POST of \<^verbatim>\<open>/healthz\<close>, at a GET of \<^verbatim>\<open>/healthz\<close>
  with the backend down, and at a plain GET of the root path.
\<close>

theorem http_error_surface_witness:
  "mux_ServeHTTP (outside refused_http refused refused) populated
       \<lparr>Method = ''POST'', URLPath = ''/healthz'', Header = []\<rparr>
     = (Replied \<lparr>code = 405, contentType = ''text/plain; charset=utf-8'',
                  body = PlainText ''method not allowed''\<rparr>, populated, []) \<and>
   fst (mux_ServeHTTP (outside refused_http refused refused) populated (getRequest ''/healthz''))
     = Replied \<lparr>code = 503, contentType = ''text/plain; charset=utf-8'',
                 body = PlainText ''Get http://127.0.0.1:9222/json/version: dial tcp 127.0.0.1:9222: connect: connection refused''\<rparr> \<and>
   fst (snd (mux_ServeHTTP (outside refused_http refused refused) populated (getRequest ''/healthz'')))
     = populated \<and>
   mux_ServeHTTP (outside refused_http refused refused) populated (getRequest ''/'')
     = (Replied \<lparr>code = 404, contentType = ''text/plain; charset=utf-8'',
                  body = PlainText ''404 page not found''\<rparr>, populated, [])"
proof -
  let ?e = "outside refused_http refused refused"
  let ?post = "\<lparr>Method = ''POST'', URLPath = ''/healthz'', Header = []\<rparr>"
  have f: "fst (fetchVersionInfo ?e populated) =
     Inl ''Get http://127.0.0.1:9222/json/version: dial tcp 127.0.0.1:9222: connect: connection refused''"
    by (simp add: fetch_unreachable outside_sel refused_http_def)
  have n: "\<not> IsWebSocketUpgrade ?e (getRequest ''/'')"
    by (simp add: outside_sel getRequest_def)
  have m1: "ServeMux_Handler ?e ?post = HealthzPattern"
    by (simp add: outside_sel plainMux_healthz)
  have m2: "ServeMux_Handler ?e (getRequest ''/healthz'') = HealthzPattern"
    by (simp add: outside_sel plainMux_healthz getRequest_def)
  have m3: "ServeMux_Handler ?e (getRequest ''/'') = RootPattern"
    by (simp add: outside_sel plainMux_root getRequest_def)
  have a1: "mux_ServeHTTP ?e populated ?post
     = (Replied \<lparr>code = 405, contentType = ''text/plain; charset=utf-8'',
                  body = PlainText ''method not allowed''\<rparr>, populated, [])"
    using http_error_surface [of ?post ?e populated] m1 by simp
  have a2: "fst (mux_ServeHTTP ?e populated (getRequest ''/healthz''))
     = Replied \<lparr>code = 503, contentType = ''text/plain; charset=utf-8'',
                 body = PlainText ''Get http://127.0.0.1:9222/json/version: dial tcp 127.0.0.1:9222: connect: connection refused''\<rparr> \<and>
     fst (snd (mux_ServeHTTP ?e populated (getRequest ''/healthz''))) = populated"
    using http_error_surface [of "getRequest ''/healthz''" ?e populated] m2 f
    by (simp add: getRequest_def)
  have a3: "mux_ServeHTTP ?e populated (getRequest ''/'')
     = (Replied \<lparr>code = 404, contentType = ''text/plain; charset=utf-8'',
                  body = PlainText ''404 page not found''\<rparr>, populated, [])"
    using http_error_surface [of "getRequest ''/''" ?e populated] m3 n by simp
  from a1 a2 a3 show ?thesis by simp
qed

text \<open>
  C8 as stated fails: a plain GET of \<^verbatim>\<open>//x\<close>, a path other than the health path, is
  answered by the mux with a redirect to \<^verbatim>\<open>/x\<close> and not with 404.
\<close>

theorem unclean_path_counterexample:
  "URLPath (getRequest ''//x'') \<noteq> ''/healthz'' \<and>
   \<not> IsWebSocketUpgrade (outside refused_http refused refused) (getRequest ''//x'') \<and>
   mux_ServeHTTP (outside refused_http refused refused) populated (getRequest ''//x'')
     = (Redirected ''/x'', populated, [])"
  by (simp add: mux_ServeHTTP_def outside_sel plainMux_unclean getRequest_def)

text \<open>
  C5. When the upgrade handshake has completed and then discovery fails, or discovery
  succeeds and the dial of the backend fails, \<^verbatim>\<open>serveWebSocket\<close> ends without a
  mirrored session: among its events there is exactly one control frame, a close frame to
  the client whose payload is the code 1013 (try again later) followed by the reason
  \<^verbatim>\<open>upstream unavailable\<close>, and its last event closes the client connection.
\<close>

theorem gateway_unavailable:
  assumes "upgrader_Upgrade e r = Inr conn"
    and "fst (ensureDebuggerURL e p) = Some err \<or>
         (fst (ensureDebuggerURL e p) = None \<and>
          dialer_DialContext e (debuggerURL (fst (snd (ensureDebuggerURL e p))))
            (if Subprotocol conn \<noteq> '''' then [(''Sec-WebSocket-Protocol'', Subprotocol conn)] else [])
            = Inl err)"
  shows "fst (serveWebSocket e p r) = Unavailable \<and>
         filter isControlFrame (snd (snd (serveWebSocket e p r))) =
           [WriteControl Client websocket_CloseMessage
              (websocket_FormatCloseMessage websocket_CloseTryAgainLater ''upstream unavailable'')] \<and>
         websocket_CloseTryAgainLater = 1013 \<and>
         websocket_FormatCloseMessage websocket_CloseTryAgainLater ''upstream unavailable''
           = CHR 0x03 # CHR 0xF5 # ''upstream unavailable'' \<and>
         last (snd (snd (serveWebSocket e p r))) = ConnClose Client"
proof -
  have "fst (dialBackend e p (Subprotocol conn)) = Inl err"
    using assms(2) by (auto simp: dialBackend_ensure_failed dialBackend_dials)
  then have "serveWebSocket e p r =
     (Unavailable, fst (snd (dialBackend e p (Subprotocol conn))),
      snd (snd (dialBackend e p (Subprotocol conn))) @
      [LogPrintf ''Failed to connect to Chromium debugger: %v'' (S err),
       WriteControl Client 8 (CHR 0x03 # CHR 0xF5 # ''upstream unavailable''),
       ConnClose Client])"
    using assms(1) by (rule serveWebSocket_unavailable [rotated])
  then show ?thesis
    using dialBackend_events [of e p "Subprotocol conn"]
    by (simp add: websocket_CloseMessage_def FormatCloseMessage_TryAgainLater)
       (simp add: websocket_CloseTryAgainLater_def)
qed

text \<open>
  The theorem at a session whose discovery fails (all events shown) and at a session
  whose dial fails after the cache was populated.
\<close>

theorem gateway_unavailable_witness:
  "serveWebSocket (outside refused_http refused (Inr (silent ''''))) undiscovered (upgradeRequest ''cdp'')
     = (Unavailable, undiscovered,
        [ClientDo versionGET,
         LogPrintf ''Failed to connect to Chromium debugger: %v''
           (S ''Get http://127.0.0.1:9222/json/version: dial tcp 127.0.0.1:9222: connect: connection refused''),
         WriteControl Client 8 (CHR 0x03 # CHR 0xF5 # ''upstream unavailable''),
         ConnClose Client]) \<and>
   fst (serveWebSocket (outside (Inr (scenarioResponse 200 ''200 OK'')) refused (Inr (silent ''''))) populated
          (upgradeRequest ''cdp'')) = Unavailable \<and>
   filter isControlFrame
     (snd (snd (serveWebSocket (outside (Inr (scenarioResponse 200 ''200 OK'')) refused (Inr (silent ''''))) populated
          (upgradeRequest ''cdp''))))
     = [WriteControl Client 8 (CHR 0x03 # CHR 0xF5 # ''upstream unavailable'')]"
proof -
  let ?down = "outside refused_http refused (Inr (silent ''''))"
  let ?up = "outside (Inr (scenarioResponse 200 ''200 OK'')) refused (Inr (silent ''''))"
  have f: "fst (fetchVersionInfo ?down undiscovered) =
     Inl ''Get http://127.0.0.1:9222/json/version: dial tcp 127.0.0.1:9222: connect: connection refused''"
    by (simp add: fetch_unreachable outside_sel refused_http_def)
  have u: "debuggerURL undiscovered = ''''"
    by (simp add: undiscovered_def)
  have e1: "ensureDebuggerURL ?down undiscovered =
     (Some ''Get http://127.0.0.1:9222/json/version: dial tcp 127.0.0.1:9222: connect: connection refused'',
      undiscovered, [ClientDo versionGET])"
    by (simp add: ensure_undiscovered [OF u] f versionRequest_scenario)
  have q: "debuggerURL populated \<noteq> ''''"
    by (simp add: populated_def)
  have e2: "ensureDebuggerURL ?up populated = (None, populated, [])"
    using q by (rule ensure_populated)
  have first: "serveWebSocket ?down undiscovered (upgradeRequest ''cdp'')
     = (Unavailable, undiscovered,
        [ClientDo versionGET,
         LogPrintf ''Failed to connect to Chromium debugger: %v''
           (S ''Get http://127.0.0.1:9222/json/version: dial tcp 127.0.0.1:9222: connect: connection refused''),
         WriteControl Client 8 (CHR 0x03 # CHR 0xF5 # ''upstream unavailable''),
         ConnClose Client])"
    by (simp add: serveWebSocket_def dialBackend_def e1 outside_sel websocket_CloseMessage_def
        FormatCloseMessage_TryAgainLater)
  have second: "fst (serveWebSocket ?up populated (upgradeRequest ''cdp'')) = Unavailable \<and>
      filter isControlFrame (snd (snd (serveWebSocket ?up populated (upgradeRequest ''cdp''))))
        = [WriteControl Client 8 (CHR 0x03 # CHR 0xF5 # ''upstream unavailable'')]"
    using gateway_unavailable [of ?up "upgradeRequest ''cdp''" "silent ''''" populated
        "''dial tcp 127.0.0.1:9222: connect: connection refused''"] e2
    by (simp add: outside_sel silent_def refused_def websocket_CloseMessage_def
        FormatCloseMessage_TryAgainLater)
  from first second show ?thesis by simp
qed

text \<open>
  C9 fails on the code. The claim says that the dial of the backend carries the
  subprotocol of a client that presented one. The upgrader of the server lists no
  subprotocols and \<^verbatim>\<open>Upgrade\<close> is given no response header, so the handshake
  negotiates no subprotocol, whatever the client presents; for the client that presents
  \<^verbatim>\<open>cdp\<close>, \<^verbatim>\<open>conn.Subprotocol()\<close> is empty and the dial of the backend carries no
  \<^verbatim>\<open>Sec-WebSocket-Protocol\<close> header.
\<close>

theorem subprotocol_not_forwarded:
  "(\<forall>clientProtocols. selectSubprotocol proxyUpgrader clientProtocols None = '''') \<and>
   presentedSubprotocols (upgradeRequest ''cdp'') = [''cdp''] \<and>
   handshake (upgradeRequest ''cdp'') = Inr (silent '''') \<and>
   dialsOf (snd (snd (serveWebSocket
       (outside refused_http (Inr (silent '''')) (handshake (upgradeRequest ''cdp'')))
       populated (upgradeRequest ''cdp''))))
     = [(''ws://127.0.0.1:9222/devtools/browser/old'', [])]"
proof -
  have q: "debuggerURL populated \<noteq> ''''"
    by (simp add: populated_def)
  have e: "ensureDebuggerURL env populated = (None, populated, [])" for env
    using q by (rule ensure_populated)
  have s: "selectSubprotocol proxyUpgrader clientProtocols None = ''''" for clientProtocols
    by (simp add: selectSubprotocol_def proxyUpgrader_def)
  have h: "handshake (upgradeRequest ''cdp'') = Inr (silent '''')"
    by (simp add: handshake_def s)
  have d: "dialsOf (snd (snd (serveWebSocket
       (outside refused_http (Inr (silent '''')) (Inr (silent ''''))) populated (upgradeRequest ''cdp''))))
     = [(''ws://127.0.0.1:9222/devtools/browser/old'', [])]"
    by (simp add: serveWebSocket_def dialBackend_def e outside_sel silent_def getDebuggerURL_def
        mirrorWebsocket_def firstErr_def)
       (simp add: populated_def)
  show ?thesis
    unfolding h using s d by (simp add: presentedSubprotocols_def upgradeRequest_def)
qed



text \<open>
  C6. Each of \<^verbatim>\<open>ensureDebuggerURL\<close> and \<^verbatim>\<open>handleHealth\<close> leaves the server as it was
  or replaces the cache by the non-empty address of a successful fetch; the catch-all
  handler changes the server only as \<^verbatim>\<open>ensureDebuggerURL\<close> does. Hence over every
  sequence of operations, whatever the outside answers, a cache that is non-empty stays
  non-empty.
\<close>

theorem cache_never_reverts:
  "(fst (snd (ensureDebuggerURL e p)) = p \<or>
    (\<exists>info. fst (fetchVersionInfo e p) = Inr info \<and> WebSocketDebuggerURL info \<noteq> '''' \<and>
       fst (snd (ensureDebuggerURL e p)) = p\<lparr>debuggerURL := WebSocketDebuggerURL info\<rparr>)) \<and>
   (fst (snd (handleHealth e p r)) = p \<or>
    (\<exists>info. fst (fetchVersionInfo e p) = Inr info \<and> WebSocketDebuggerURL info \<noteq> '''' \<and>
       fst (snd (handleHealth e p r)) = p\<lparr>debuggerURL := WebSocketDebuggerURL info\<rparr>)) \<and>
   (fst (snd (handleProxy e p r)) = p \<or>
    fst (snd (handleProxy e p r)) = fst (snd (ensureDebuggerURL e p))) \<and>
   (debuggerURL p \<noteq> '''' \<longrightarrow> debuggerURL (run p ops) \<noteq> '''')"
  using ensure_cache [of e p] health_cache [of e p r] proxy_server [of e p r]
    run_keeps_populated [of p ops]
  by blast

text \<open>
  The theorem at a populated cache over four operations: the start with the backend
  down, a health check that refreshes the address, a gateway session whose dial fails
  and a health check with the backend down.
\<close>

theorem cache_never_reverts_witness:
  "debuggerURL (run populated
     [(outside refused_http refused refused, Startup),
      (outside (Inr (scenarioResponse 200 ''200 OK'')) refused refused, Health (getRequest ''/healthz'')),
      (outside refused_http refused (Inr (silent '''')), Proxy plainUpgradeRequest),
      (outside refused_http refused refused, Health (getRequest ''/healthz''))])
   = ''ws://127.0.0.1:9222/devtools/browser/abc''"
proof -
  let ?down = "outside refused_http refused refused"
  let ?up = "outside (Inr (scenarioResponse 200 ''200 OK'')) refused refused"
  let ?ws = "outside refused_http refused (Inr (silent ''''))"
  let ?p = "populated\<lparr>debuggerURL := ''ws://127.0.0.1:9222/devtools/browser/abc''\<rparr>"
  have g: "Method (getRequest ''/healthz'') = ''GET''"
    by (simp add: getRequest_def)
  have q: "debuggerURL populated \<noteq> ''''"
    by (simp add: populated_def)
  have s1: "step populated (?down, Startup) = populated"
    by (simp add: ensure_populated [OF q])
  have f2: "fst (fetchVersionInfo ?up populated) = Inr scenarioInfo"
    by (simp add: fetch_response outside_sel scenarioResponse_def scenarioDecode_def scenarioInfo_def)
  have s2: "step populated (?up, Health (getRequest ''/healthz'')) = ?p"
    using health_fetch_ok [OF g f2] by (simp add: scenarioInfo_def)
  have ne: "debuggerURL ?p \<noteq> ''''"
    by simp
  have s3: "step ?p (?ws, Proxy plainUpgradeRequest) = ?p"
    by (simp add: handleProxy_def serveWebSocket_def dialBackend_def ensure_populated [OF ne]
        outside_sel refused_def plainUpgradeRequest_def)
  have f4: "fst (fetchVersionInfo ?down ?p) =
     Inl ''Get http://127.0.0.1:9222/json/version: dial tcp 127.0.0.1:9222: connect: connection refused''"
    by (simp add: fetch_unreachable outside_sel refused_http_def)
  have s4: "step ?p (?down, Health (getRequest ''/healthz'')) = ?p"
    by (simp add: health_fetch_failed [OF g f4])
  have "run populated
     [(?down, Startup), (?up, Health (getRequest ''/healthz'')),
      (?ws, Proxy plainUpgradeRequest), (?down, Health (getRequest ''/healthz''))] = ?p"
    unfolding run_def foldl.simps s1 s2 s3 s4 by (rule refl)
  moreover have "debuggerURL (run populated
     [(?down, Startup), (?up, Health (getRequest ''/healthz'')),
      (?ws, Proxy plainUpgradeRequest), (?down, Health (getRequest ''/healthz''))]) \<noteq> ''''"
    using cache_never_reverts [of e populated r
        "[(?down, Startup), (?up, Health (getRequest ''/healthz'')),
          (?ws, Proxy plainUpgradeRequest), (?down, Health (getRequest ''/healthz''))]"] q
    by blast
  ultimately show ?thesis by simp
qed

end
